theory Spec2Isabelle
  imports Complex_Main "HOL-Library.AList"
begin

section \<open>Conventions of the embedding\<close>

text \<open>
  The two tools, \<^verbatim>\<open>QA_SliverFinder.py\<close> and \<^verbatim>\<open>QA_VertexProblems.py\<close>, are embedded
  function by function. Python floats are modelled by the real numbers (\<^verbatim>\<open>math.sqrt\<close> is
  \<open>sqrt\<close>, \<^verbatim>\<open>math.acos\<close> is \<open>arccos\<close> on its domain); rounding error of the machine
  arithmetic is not part of the model. Exceptions are values of \<open>py_error\<close>; every
  \<^verbatim>\<open>try/except\<close> of the source is a case distinction on a sum. Messages passed to
  \<^verbatim>\<open>AddMsgAndPrint\<close> are kept in a log, as a constructor for the text and the severity
  number. Calls that only drive the host (progress bar, creation of tables and layers,
  joins, symbology) are taken to succeed and leave no trace in the model, the messages of
  the functions that create the layers included.
\<close>

datatype py_error = IndexError | ValueError | ZeroDivisionError | NameError | KeyError | SystemExit

datatype msg_text =
    LocatingAngles real
  | FailedAngle nat
  | Traceback py_error
  | FidFeat int
  | BadPolygonGeometry "int list"
  | SavedSlivers nat
  | Spacer
  | NoAnglesFound real
  | DatumMismatch
  | SwitchingToWebMercatur
  | UnableToHandleCS string string
  | FinalOutputCS string
  | Blank
  | ReadingGeometry
  | BadGeometry int
  | NullGeometry int
  | FailedAcre string
  | HasMultipart
  | FlaggedSegments nat real string
  | OutputStatsTable
  | LayerPath
  | NoShortSegments real string

type_synonym message = "msg_text \<times> nat"

text \<open>\<^verbatim>\<open>AddMsgAndPrint(msg, severity=0)\<close>: appends to the log; it never raises.\<close>

definition AddMsgAndPrint :: "msg_text \<Rightarrow> nat \<Rightarrow> message list \<Rightarrow> message list" where
  "AddMsgAndPrint msg severity lg = lg @ [(msg, severity)]"

text \<open>
  \<^verbatim>\<open>errorMsg()\<close>: reports the exception being handled with severity 2, except that a
  traceback whose text contains \<^verbatim>\<open>exit\<close> (the one of \<^verbatim>\<open>exit()\<close>) is replaced by a blank
  message of severity 0.
\<close>

definition errorMsg :: "py_error \<Rightarrow> message list \<Rightarrow> message list" where
  "errorMsg e lg =
     (if e = SystemExit then AddMsgAndPrint Blank 0 lg else AddMsgAndPrint (Traceback e) 2 lg)"

section \<open>Python's rounding and the \<^verbatim>\<open>math\<close> functions\<close>

text \<open>\<^verbatim>\<open>round\<close> rounds to the nearest value and a tie to the even neighbour.\<close>

definition round_half_even :: "real \<Rightarrow> int" where
  "round_half_even x =
     (let f = \<lfloor>x\<rfloor>; d = x - of_int f
      in if d < 1/2 then f else if 1/2 < d then f + 1 else if even f then f else f + 1)"

text \<open>\<^verbatim>\<open>round(x, ndigits)\<close>, a float with \<open>ndigits\<close> decimal places.\<close>

definition py_round_ndigits :: "real \<Rightarrow> nat \<Rightarrow> real" where
  "py_round_ndigits x ndigits = of_int (round_half_even (x * 10 ^ ndigits)) / 10 ^ ndigits"

text \<open>\<^verbatim>\<open>math.acos\<close> raises \<^verbatim>\<open>ValueError\<close> outside of \<open>[-1, 1]\<close>.\<close>

definition math_acos :: "real \<Rightarrow> py_error + real" where
  "math_acos p = (if - 1 \<le> p \<and> p \<le> 1 then Inr (arccos p) else Inl ValueError)"

definition math_degrees :: "real \<Rightarrow> real" where
  "math_degrees r = r * 180 / pi"

section \<open>The angle evaluator (\<^verbatim>\<open>QA_SliverFinder.GetAngleFromPoints\<close>)\<close>

type_synonym point = "real \<times> real"

text \<open>The length of the side from \<open>P\<close> to \<open>Q\<close>: \<^verbatim>\<open>math.sqrt(dx**2 + dy**2)\<close>.\<close>

definition side :: "point \<Rightarrow> point \<Rightarrow> real" where
  "side P Q = sqrt ((fst Q - fst P)\<^sup>2 + (snd Q - snd P)\<^sup>2)"

text \<open>The law-of-cosines quotient of line 150, before \<^verbatim>\<open>round(_, 10)\<close>.\<close>

definition cos_quotient :: "real \<Rightarrow> real \<Rightarrow> real \<Rightarrow> real" where
  "cos_quotient mAB mBC mCA = (mAB\<^sup>2 + mBC\<^sup>2 - mCA\<^sup>2) / (2 * mAB * mBC)"

text \<open>
  Lines 146 to 160: what the function does once the three side lengths are computed.
  The result is the log of messages it reports and the returned integer. The
  \<^verbatim>\<open>ValueError\<close> of \<^verbatim>\<open>math.acos\<close> is caught by the function's own handler, which
  returns \<open>-1\<close>.
\<close>

definition angle_from_sides :: "nat \<Rightarrow> real \<Rightarrow> real \<Rightarrow> real \<Rightarrow> message list \<times> int" where
  "angle_from_sides iPnt mAB mBC mCA =
     (if mAB = 0 \<or> mBC = 0 then (AddMsgAndPrint (FailedAngle iPnt) 0 [], 0)
      else let p = py_round_ndigits (cos_quotient mAB mBC mCA) 10
           in case math_acos p of
                Inl e \<Rightarrow> (errorMsg e [], - 1)
              | Inr r \<Rightarrow> ([], round_half_even (math_degrees r)))"

text \<open>
  The whole function. The three vertices are read at \<open>iPnt\<close>, \<open>1 + iPnt\<close> and
  \<open>2 + iPnt\<close>; an index out of range raises \<^verbatim>\<open>IndexError\<close>, caught by the same handler.
\<close>

definition GetAngleFromPoints :: "point list \<Rightarrow> nat \<Rightarrow> message list \<times> int" where
  "GetAngleFromPoints pntList iPnt =
     (if 2 + iPnt < length pntList
      then let A = pntList ! (0 + iPnt); B = pntList ! (1 + iPnt); C = pntList ! (2 + iPnt)
           in angle_from_sides iPnt (side A B) (side B C) (side C A)
      else (errorMsg IndexError [], - 1))"

section \<open>The angle scan (\<^verbatim>\<open>QA_SliverFinder.ProcessLayer\<close>)\<close>

text \<open>
  A part is the vertex stream of the host: \<open>None\<close> is the null vertex that separates an
  interior ring. A geometry is its list of parts (\<^verbatim>\<open>partCount\<close> is their number) and the
  \<^verbatim>\<open>pointCount\<close> the host reports. A row of the search cursor is the feature id, the
  nullable geometry and, for the segment tool, the area and the perimeter.
\<close>

type_synonym part = "point option list"

record geometry =
  parts :: "part list"
  pointCount :: nat

definition partCount :: "geometry \<Rightarrow> nat" where
  "partCount g = length (parts g)"

record feature =
  fid :: int
  feat :: "geometry option"
  theArea :: real
  thePerimeter :: real

text \<open>
  The accumulators of the scan: the running counter \<open>iErr\<close>, the dictionaries \<open>dLines\<close>
  and \<open>dTest\<close> (association lists in insertion order, as a Python dict iterates), the list
  \<open>badPolys\<close> and the message log.
\<close>

type_synonym sliver = "point list \<times> int \<times> int"

record sliver_state =
  iErr :: nat
  dLines :: "(nat \<times> sliver) list"
  dTest :: "(nat \<times> int) list"
  badPolys :: "int list"
  messages :: "message list"

text \<open>The loop over the vertices of one part (lines 210 to 221): it stops at a null vertex.\<close>

fun collect :: "part \<Rightarrow> point list" where
  "collect [] = []"
| "collect (None # rest) = []"
| "collect (Some pnt # rest) = pnt # collect rest"

text \<open>
  The loop over the parts (lines 203 to 226). Each part starts a new \<open>pntList\<close> and ends
  with \<^verbatim>\<open>pntList.append(pntList[1])\<close>, which raises \<^verbatim>\<open>IndexError\<close> when fewer than two
  vertices were collected. What is left when the loop ends is the list of the part read last.
\<close>

fun walk_parts :: "part list \<Rightarrow> point list \<Rightarrow> py_error + point list" where
  "walk_parts [] pntList = Inr pntList"
| "walk_parts (part # rest) pntList =
     (let pl = collect part
      in if 1 < length pl then walk_parts rest (pl @ [pl ! 1]) else Inl IndexError)"

text \<open>
  Lines 234 to 240: what the loop does with the angle that the evaluator returned for the
  index \<open>iPnt\<close>. The key \<open>iErr\<close> is new, so the assignment adds an entry at the end of each
  dictionary.
\<close>

definition record_angle ::
    "point list \<Rightarrow> int \<Rightarrow> real \<Rightarrow> nat \<Rightarrow> int \<Rightarrow> sliver_state \<Rightarrow> sliver_state" where
  "record_angle pntList f minAngle iPnt theAngle st =
     (if of_int theAngle \<le> minAngle
      then let k = iErr st + 1
           in st\<lparr>iErr := k,
                  dLines := AList.update k
                     ([pntList ! (0 + iPnt), pntList ! (1 + iPnt), pntList ! (2 + iPnt)], f, theAngle)
                     (dLines st),
                  dTest := AList.update k theAngle (dTest st)\<rparr>
      else st)"

text \<open>
  The body of the loop of lines 230 to 243 for one index. The loop runs over
  \<^verbatim>\<open>range(len(pntList) - 2)\<close>, so the three reads of \<open>pntList\<close> are in range and the
  handler of the loop body has nothing to catch.
\<close>

definition check_angle :: "point list \<Rightarrow> int \<Rightarrow> real \<Rightarrow> nat \<Rightarrow> sliver_state \<Rightarrow> sliver_state" where
  "check_angle pntList f minAngle iPnt st =
     (let (msgs, theAngle) = GetAngleFromPoints pntList iPnt
      in record_angle pntList f minAngle iPnt theAngle (st\<lparr>messages := messages st @ msgs\<rparr>))"

definition scan_angles :: "point list \<Rightarrow> int \<Rightarrow> real \<Rightarrow> sliver_state \<Rightarrow> sliver_state" where
  "scan_angles pntList f minAngle st =
     fold (check_angle pntList f minAngle) [0 ..< length pntList - 2] st"

text \<open>
  One row of the cursor (lines 185 to 259). An exception of the walk is caught per row:
  two error messages are reported and the scan goes on with the next row.
\<close>

definition process_row :: "real \<Rightarrow> feature \<Rightarrow> sliver_state \<Rightarrow> sliver_state" where
  "process_row minAngle row st =
     (case feat row of
        None \<Rightarrow> st\<lparr>badPolys := badPolys st @ [fid row]\<rparr>
      | Some g \<Rightarrow>
          if 0 < partCount g
          then (case walk_parts (parts g) [] of
                  Inl e \<Rightarrow> st\<lparr>messages := errorMsg e (AddMsgAndPrint (FidFeat (fid row)) 2 (messages st))\<rparr>
                | Inr pntList \<Rightarrow> scan_angles pntList (fid row) minAngle st)
          else st\<lparr>badPolys := badPolys st @ [fid row]\<rparr>)"

definition scan_layer :: "real \<Rightarrow> feature list \<Rightarrow> sliver_state" where
  "scan_layer minAngle rows =
     fold (process_row minAngle) rows
       \<lparr>iErr = 0, dLines = [], dTest = [], badPolys = [],
        messages = AddMsgAndPrint (LocatingAngles minAngle) 0 []\<rparr>"

text \<open>
  The result of a run: the boolean the function returns, the rows inserted into the line
  layer (three vertices, polygon id, angle) and into the point layer (the middle vertex,
  polygon id, angle; the source writes the angle as text with a degree sign), and the log.
\<close>

record sliver_result =
  ok :: bool
  lineRows :: "sliver list"
  pointRows :: "(point \<times> int \<times> int) list"
  report :: "message list"

text \<open>Line 270: \<^verbatim>\<open>OrderedDict(sorted(list(dTest.items()), key=lambda x: x[1]))\<close>, a stable sort.\<close>

definition dAngles_of :: "(nat \<times> int) list \<Rightarrow> (nat \<times> int) list" where
  "dAngles_of dT = sort_key snd dT"

text \<open>
  The two insert loops (lines 291 to 300 and 318 to 325). \<^verbatim>\<open>dLines[key]\<close> raises
  \<^verbatim>\<open>KeyError\<close> on a missing key and \<^verbatim>\<open>pntList[1]\<close> raises \<^verbatim>\<open>IndexError\<close> on a
  short list.
\<close>

fun line_rows :: "(nat \<times> sliver) list \<Rightarrow> nat list \<Rightarrow> py_error + sliver list" where
  "line_rows dL [] = Inr []"
| "line_rows dL (key # keys) =
     (case map_of dL key of
        None \<Rightarrow> Inl KeyError
      | Some s \<Rightarrow> (case line_rows dL keys of Inl e \<Rightarrow> Inl e | Inr rs \<Rightarrow> Inr (s # rs)))"

definition point_row :: "sliver \<Rightarrow> py_error + (point \<times> int \<times> int)" where
  "point_row s =
     (case s of (pntList, f, theAngle) \<Rightarrow>
        if 1 < length pntList then Inr (pntList ! 1, f, theAngle) else Inl IndexError)"

fun point_rows :: "(nat \<times> sliver) list \<Rightarrow> nat list \<Rightarrow> py_error + (point \<times> int \<times> int) list" where
  "point_rows dL [] = Inr []"
| "point_rows dL (key # keys) =
     (case map_of dL key of
        None \<Rightarrow> Inl KeyError
      | Some s \<Rightarrow>
          (case point_row s of
             Inl e \<Rightarrow> Inl e
           | Inr r \<Rightarrow> (case point_rows dL keys of Inl e \<Rightarrow> Inl e | Inr rs \<Rightarrow> Inr (r # rs))))"

text \<open>
  Lines 263 to 392, from the accumulators to the result. An exception while the rows are
  written reaches the outer handler, which reports it and returns \<^verbatim>\<open>False\<close>. The
  accumulators of a scan never raise there (lemma \<open>materialize_scan\<close> below).
\<close>

definition materialize :: "real \<Rightarrow> sliver_state \<Rightarrow> sliver_result" where
  "materialize minAngle st =
     (if 0 < length (badPolys st)
      then \<lparr>ok = False, lineRows = [], pointRows = [],
            report = AddMsgAndPrint (BadPolygonGeometry (badPolys st)) 2 (messages st)\<rparr>
      else let dAngles = dAngles_of (dTest st)
           in if 0 < length (dLines st)
              then let lg = AddMsgAndPrint (SavedSlivers (iErr st)) 0 (messages st)
                   in (case line_rows (dLines st) (map fst dAngles) of
                         Inl e \<Rightarrow> \<lparr>ok = False, lineRows = [], pointRows = [], report = errorMsg e lg\<rparr>
                       | Inr ls \<Rightarrow>
                           let lg2 = AddMsgAndPrint Spacer 0 lg
                           in (case point_rows (dLines st) (map fst dAngles) of
                                 Inl e \<Rightarrow>
                                   \<lparr>ok = False, lineRows = ls, pointRows = [], report = errorMsg e lg2\<rparr>
                               | Inr ps \<Rightarrow>
                                   \<lparr>ok = True, lineRows = ls, pointRows = ps, report = lg2\<rparr>))
              else \<lparr>ok = True, lineRows = [], pointRows = [],
                    report = AddMsgAndPrint (NoAnglesFound minAngle) 0 (messages st)\<rparr>)"

definition ProcessLayer_SliverFinder :: "real \<Rightarrow> feature list \<Rightarrow> sliver_result" where
  "ProcessLayer_SliverFinder minAngle rows = materialize minAngle (scan_layer minAngle rows)"

section \<open>The segment scan (\<^verbatim>\<open>QA_VertexProblems.ProcessLayer\<close>)\<close>

text \<open>A flagged segment: the midpoint, the polygon id and the length.\<close>

type_synonym midPnt = "point \<times> int \<times> real"

text \<open>A row of the statistics table: POLYID, ACRES, VERTICES, AVI, MIN\_DIST, MULTIPART.\<close>

type_synonym stats_row = "int \<times> real \<times> nat \<times> real \<times> real \<times> nat"

text \<open>
  The variables of the function that live across rows. \<open>iPartCnt\<close>, \<open>iPnts\<close> and \<open>iSeg\<close>
  are assigned only in the branch of a geometry that is not null; \<open>assigned\<close> tells
  whether that has happened yet (reading them before raises \<^verbatim>\<open>NameError\<close>). Afterwards
  they keep the values of the last such row.
\<close>

record vertex_state =
  assigned :: bool
  iPartCnt :: nat
  iPnts :: nat
  iSeg :: real
  pntList :: "point list"
  iCnt :: nat
  dPoints :: "(int \<times> midPnt list) list"
  bHasMultiPart :: bool
  statsRows :: "stats_row list"
  vmessages :: "message list"

definition math_hypot :: "real \<Rightarrow> real \<Rightarrow> real" where
  "math_hypot x y = sqrt (x\<^sup>2 + y\<^sup>2)"

text \<open>Lines 202 to 208: append to the list of the polygon, or start it.\<close>

definition dPoints_add :: "int \<Rightarrow> midPnt \<Rightarrow> (int \<times> midPnt list) list \<Rightarrow> (int \<times> midPnt list) list" where
  "dPoints_add f m d =
     (case map_of d f of
        Some ms \<Rightarrow> AList.update f (ms @ [m]) d
      | None \<Rightarrow> AList.update f [m] d)"

text \<open>Lines 184 to 212: the two points of \<open>pntList\<close> are measured, then the first is dropped.\<close>

definition segment_step :: "int \<Rightarrow> real \<Rightarrow> vertex_state \<Rightarrow> vertex_state" where
  "segment_step f minDist st =
     (let P0 = pntList st ! 0; P1 = pntList st ! 1;
          dist = math_hypot (fst P0 - fst P1) (snd P0 - snd P1);
          st1 = (if dist < iSeg st then st\<lparr>iSeg := dist\<rparr> else st);
          st2 = (if dist < minDist
                 then let xm = (fst P0 + fst P1) / 2;
                          ym = (snd P0 + snd P1) / 2;
                          midPnt = ((xm, ym), f, dist)
                      in st1\<lparr>iCnt := iCnt st1 + 1, dPoints := dPoints_add f midPnt (dPoints st1)\<rparr>
                 else st1)
      in st2\<lparr>pntList := tl (pntList st2)\<rparr>)"

text \<open>
  Lines 173 to 221, the loop over the vertices of a part. The \<^verbatim>\<open>append\<close> of a null vertex
  raises and is passed over; the null vertex then empties the list and ends the loop.
\<close>

fun scan_vertices :: "int \<Rightarrow> real \<Rightarrow> part \<Rightarrow> vertex_state \<Rightarrow> vertex_state" where
  "scan_vertices f minDist [] st = st"
| "scan_vertices f minDist (None # rest) st = st\<lparr>pntList := []\<rparr>"
| "scan_vertices f minDist (Some pnt # rest) st =
     (let st1 = st\<lparr>pntList := pntList st @ [pnt]\<rparr>
      in if length (pntList st1) = 2
         then scan_vertices f minDist rest (segment_step f minDist st1)
         else scan_vertices f minDist rest st1)"

text \<open>Lines 168 to 221, the loop over the parts; \<^verbatim>\<open>part[0]\<close> raises on an empty part.\<close>

fun scan_parts :: "int \<Rightarrow> real \<Rightarrow> part list \<Rightarrow> vertex_state \<Rightarrow> py_error + vertex_state" where
  "scan_parts f minDist [] st = Inr st"
| "scan_parts f minDist (part # rest) st =
     (if part = [] then Inl IndexError
      else scan_parts f minDist rest (scan_vertices f minDist part (st\<lparr>pntList := []\<rparr>)))"

text \<open>Lines 151 to 225, the geometry of one row.\<close>

definition read_geometry :: "real \<Rightarrow> feature \<Rightarrow> vertex_state \<Rightarrow> py_error + vertex_state" where
  "read_geometry minDist row st =
     (case feat row of
        None \<Rightarrow> Inr (st\<lparr>vmessages := AddMsgAndPrint (NullGeometry (fid row)) 2 (vmessages st)\<rparr>)
      | Some g \<Rightarrow>
          let n = partCount g;
              st1 = (if n = 1 then st\<lparr>iPartCnt := 0\<rparr>
                     else if n = 0
                     then st\<lparr>iPartCnt := n,
                             vmessages := AddMsgAndPrint (BadGeometry (fid row)) 2 (vmessages st)\<rparr>
                     else st\<lparr>iPartCnt := n, bHasMultiPart := True\<rparr>);
              st2 = st1\<lparr>assigned := True, iPnts := pointCount g, iSeg := 1000000\<rparr>
          in scan_parts (fid row) minDist (parts g) st2)"

text \<open>Lines 228 to 236; \<open>None\<close> is the branch that reports and returns \<^verbatim>\<open>False\<close>.\<close>

definition acres_of :: "string \<Rightarrow> real \<Rightarrow> real option" where
  "acres_of theUnits area =
     (if theUnits = ''meters'' then Some (area / 4046.85643)
      else if theUnits = ''feet_us'' then Some (area / 43560.0)
      else None)"

text \<open>
  Lines 228 to 240, the statistics row. \<open>Inl\<close> is the end of the run with \<^verbatim>\<open>False\<close>:
  the state it carries holds the rows inserted so far and the log.
\<close>

definition write_stats :: "string \<Rightarrow> feature \<Rightarrow> vertex_state \<Rightarrow> vertex_state + vertex_state" where
  "write_stats theUnits row st =
     (case acres_of theUnits (theArea row) of
        None \<Rightarrow> Inl (st\<lparr>vmessages := AddMsgAndPrint (FailedAcre theUnits) 2 (vmessages st)\<rparr>)
      | Some acres \<Rightarrow>
          if \<not> assigned st then Inl (st\<lparr>vmessages := errorMsg NameError (vmessages st)\<rparr>)
          else if iPnts st = 0 then Inl (st\<lparr>vmessages := errorMsg ZeroDivisionError (vmessages st)\<rparr>)
          else let avi = thePerimeter row / real (iPnts st);
                   outRow = (fid row, acres, iPnts st, avi, iSeg st, iPartCnt st)
               in Inr (st\<lparr>statsRows := statsRows st @ [outRow]\<rparr>))"

definition process_feature :: "string \<Rightarrow> real \<Rightarrow> feature \<Rightarrow> vertex_state \<Rightarrow> vertex_state + vertex_state" where
  "process_feature theUnits minDist row st =
     (case read_geometry minDist row st of
        Inl e \<Rightarrow> Inl (st\<lparr>vmessages := errorMsg e (vmessages st)\<rparr>)
      | Inr st1 \<Rightarrow> write_stats theUnits row st1)"

fun scan_rows :: "string \<Rightarrow> real \<Rightarrow> feature list \<Rightarrow> vertex_state \<Rightarrow> vertex_state + vertex_state" where
  "scan_rows theUnits minDist [] st = Inr st"
| "scan_rows theUnits minDist (row # rows) st =
     (case process_feature theUnits minDist row st of
        Inl st1 \<Rightarrow> Inl st1
      | Inr st1 \<Rightarrow> scan_rows theUnits minDist rows st1)"

definition vertex_init :: vertex_state where
  "vertex_init =
     \<lparr>assigned = False, iPartCnt = 0, iPnts = 0, iSeg = 0, pntList = [], iCnt = 0, dPoints = [],
      bHasMultiPart = False, statsRows = [], vmessages = AddMsgAndPrint ReadingGeometry 0 []\<rparr>"

text \<open>
  The result of a run: the returned boolean, the rows of the statistics table, the rows of
  the flag-point layer and the log.
\<close>

record vertex_result =
  vok :: bool
  statsTable :: "stats_row list"
  flagRows :: "midPnt list"
  vreport :: "message list"

text \<open>
  The whole function. After the loop \<^verbatim>\<open>del outRow\<close> raises \<^verbatim>\<open>NameError\<close> when no row
  was read. The flag points are written polygon by polygon in the order of \<open>dPoints\<close>.
\<close>

definition ProcessLayer_VertexProblems ::
    "string \<Rightarrow> string \<Rightarrow> real \<Rightarrow> feature list \<Rightarrow> vertex_result" where
  "ProcessLayer_VertexProblems theUnits outLayer minDist rows =
     (case scan_rows theUnits minDist rows vertex_init of
        Inl st \<Rightarrow> \<lparr>vok = False, statsTable = statsRows st, flagRows = [], vreport = vmessages st\<rparr>
      | Inr st \<Rightarrow>
          if rows = []
          then \<lparr>vok = False, statsTable = statsRows st, flagRows = [],
                vreport = errorMsg NameError (vmessages st)\<rparr>
          else let lg = (if bHasMultiPart st then AddMsgAndPrint HasMultipart 2 (vmessages st)
                         else vmessages st)
               in if outLayer \<noteq> [] \<and> 0 < length (dPoints st)
                  then \<lparr>vok = True, statsTable = statsRows st,
                        flagRows = concat (map snd (dPoints st)),
                        vreport =
                          AddMsgAndPrint LayerPath 0
                            (AddMsgAndPrint OutputStatsTable 0
                               (AddMsgAndPrint (FlaggedSegments (iCnt st) minDist theUnits) 1 lg))\<rparr>
                  else \<lparr>vok = True, statsTable = statsRows st, flagRows = [],
                        vreport = AddMsgAndPrint (NoShortSegments minDist theUnits) 0 lg\<rparr>)"

section \<open>The unit and projection normalizer (the two main programs)\<close>

text \<open>\<^verbatim>\<open>str.lower\<close> and \<^verbatim>\<open>str.upper\<close> on ASCII letters.\<close>

definition lower_char :: "char \<Rightarrow> char" where
  "lower_char c =
     (let n = (of_char c :: nat) in if 65 \<le> n \<and> n \<le> 90 then char_of (n + 32) else c)"

definition upper_char :: "char \<Rightarrow> char" where
  "upper_char c =
     (let n = (of_char c :: nat) in if 97 \<le> n \<and> n \<le> 122 then char_of (n - 32) else c)"

definition py_lower :: "string \<Rightarrow> string" where
  "py_lower s = map lower_char s"

definition py_upper :: "string \<Rightarrow> string" where
  "py_upper s = map upper_char s"

definition py_startswith :: "string \<Rightarrow> string \<Rightarrow> bool" where
  "py_startswith s p = (take (length p) s = p)"

text \<open>
  \<^verbatim>\<open>s.replace(old, new)\<close> for a pattern that is not empty: the occurrences are replaced
  from the left and do not overlap.
\<close>

fun py_replace :: "string \<Rightarrow> string \<Rightarrow> string \<Rightarrow> string" where
  "py_replace old new [] = []"
| "py_replace old new (c # cs) =
     (if old \<noteq> [] \<and> py_startswith (c # cs) old
      then new @ py_replace old new (drop (length old - 1) cs)
      else c # py_replace old new cs)"

text \<open>
  What the programs read from a spatial reference: its name, the datum name of its
  geographic system, its type and the name of its linear unit.
\<close>

record spatial_reference =
  srName :: string
  datumName :: string
  srType :: string
  linearUnitName :: string

text \<open>
  \<^verbatim>\<open>CreateWebMercaturSR()\<close>: the reference of code 3857,
  WGS 1984 Web Mercator (auxiliary sphere), a projected system in metres.
\<close>

definition CreateWebMercaturSR :: spatial_reference where
  "CreateWebMercaturSR =
     \<lparr>srName = ''WGS_1984_Web_Mercator_Auxiliary_Sphere'', datumName = ''D_WGS_1984'',
      srType = ''Projected'', linearUnitName = ''Meter''\<rparr>"

text \<open>Lines 652 to 654 (606 to 608 in the segment tool).\<close>

definition normalize_units :: "string \<Rightarrow> string" where
  "normalize_units u = py_replace ''meter'' ''meters'' (py_replace ''foot'' ''feet'' (py_lower u))"

definition unitAbbrev_of :: "string \<Rightarrow> string" where
  "unitAbbrev_of theUnits = (if py_startswith theUnits ''meter'' then ''m'' else ''ft'')"

text \<open>
  The choice of the output reference and of its datum (lines 628 to 635), and the
  projection check (lines 640 to 650), which are the same in both programs.
\<close>

definition choose_output :: "spatial_reference \<Rightarrow> spatial_reference \<Rightarrow> spatial_reference \<times> string" where
  "choose_output inputSR outputSR =
     (if srName outputSR = [] then (inputSR, datumName inputSR)
      else (outputSR, datumName outputSR))"

definition check_projected ::
    "bool \<Rightarrow> spatial_reference \<Rightarrow> spatial_reference \<Rightarrow> string \<Rightarrow> message list
       \<Rightarrow> spatial_reference \<times> message list" where
  "check_projected sliver inputSR outputSR outputDatum lg =
     (if py_upper (srType outputSR) \<noteq> ''PROJECTED''
      then if datumName inputSR = ''D_North_American_1983'' \<or> datumName inputSR = ''D_WGS_1984''
           then (CreateWebMercaturSR, AddMsgAndPrint SwitchingToWebMercatur 1 lg)
           else (outputSR,
                 AddMsgAndPrint
                   (if sliver then UnableToHandleCS (srName outputSR) outputDatum
                    else UnableToHandleCS (srName inputSR) (datumName inputSR)) 2 lg)
      else (outputSR, AddMsgAndPrint (FinalOutputCS (srName outputSR)) 0 lg))"

text \<open>
  The result of a main program: the log of the main program itself, the unit it settled
  on, and the result of \<^verbatim>\<open>ProcessLayer\<close>, or \<open>None\<close> when the program ended before the call.
\<close>

record 'r main_result =
  mainLog :: "message list"
  unitsChosen :: string
  bProcessed :: "'r option"

text \<open>\<^verbatim>\<open>QA_SliverFinder.py\<close>, lines 627 to 662.\<close>

definition main_SliverFinder ::
    "spatial_reference \<Rightarrow> spatial_reference \<Rightarrow> real \<Rightarrow> feature list \<Rightarrow> sliver_result main_result" where
  "main_SliverFinder inputSR outputSR0 minAngle rows =
     (let inputDatum = datumName inputSR;
          (outputSR1, outputDatum) = choose_output inputSR outputSR0;
          lg1 = (if inputDatum \<noteq> outputDatum then AddMsgAndPrint DatumMismatch 2 [] else []);
          (outputSR, lg2) = check_projected True inputSR outputSR1 outputDatum lg1;
          units = normalize_units (linearUnitName outputSR)
      in \<lparr>mainLog = lg2, unitsChosen = units,
          bProcessed = Some (ProcessLayer_SliverFinder minAngle rows)\<rparr>)"

text \<open>
  \<^verbatim>\<open>QA_VertexProblems.py\<close>, lines 580 to 616. \<^verbatim>\<open>exit()\<close> raises \<^verbatim>\<open>SystemExit\<close>, which the
  handler of the main program catches and hands to \<^verbatim>\<open>errorMsg\<close>.
\<close>

definition main_VertexProblems ::
    "spatial_reference \<Rightarrow> spatial_reference \<Rightarrow> string \<Rightarrow> real \<Rightarrow> feature list
       \<Rightarrow> vertex_result main_result" where
  "main_VertexProblems inputSR outputSR0 outLayer minDist rows =
     (let inputDatum = datumName inputSR;
          (outputSR1, outputDatum) = choose_output inputSR outputSR0
      in if inputDatum \<noteq> outputDatum
         then \<lparr>mainLog = errorMsg SystemExit (AddMsgAndPrint DatumMismatch 2 []),
               unitsChosen = [], bProcessed = None\<rparr>
         else let (outputSR, lg2) = check_projected False inputSR outputSR1 outputDatum [];
                  units = normalize_units (linearUnitName outputSR)
              in \<lparr>mainLog = lg2, unitsChosen = units,
                  bProcessed = Some (ProcessLayer_VertexProblems units outLayer minDist rows)\<rparr>)"

section \<open>Notions of the specification\<close>

text \<open>
  The formula the specification gives for the angle at \<open>B\<close>: the law-of-cosines quotient
  clamped into \<open>[-1, 1]\<close>, its arc cosine in degrees, rounded to the nearest integer.
\<close>

definition clamp :: "real \<Rightarrow> real \<Rightarrow> real \<Rightarrow> real" where
  "clamp x lo hi = max lo (min hi x)"


text \<open>A malformed input polygon: null geometry, or a part count of zero.\<close>

definition bad_row :: "feature \<Rightarrow> bool" where
  "bad_row row = (case feat row of None \<Rightarrow> True | Some g \<Rightarrow> partCount g = 0)"

text \<open>The computed angle of a collected defect, and the entry that \<open>dTest\<close> keeps of it.\<close>

definition angle_of :: "sliver \<Rightarrow> int" where
  "angle_of s = snd (snd s)"

definition sliver_entry :: "nat \<times> sliver \<Rightarrow> nat \<times> int" where
  "sliver_entry e = (fst e, angle_of (snd e))"

text \<open>
  The invariant of the accumulators of the angle scan: the keys of \<open>dLines\<close> are the values
  the running counter has taken, in order; \<open>dTest\<close> holds the same keys with the angles;
  every collected defect has its three vertices.
\<close>

definition acc_inv :: "sliver_state \<Rightarrow> bool" where
  "acc_inv st =
     (map fst (dLines st) = [1 ..< Suc (iErr st)] \<and>
      dTest st = map sliver_entry (dLines st) \<and>
      list_all (\<lambda>e. length (fst (snd e)) = 3) (dLines st))"

text \<open>
  The segment defects as the specification describes them: of the pairs of consecutive
  vertices, those whose Euclidean distance is strictly below the threshold, each marked
  at the arithmetic mean of its two endpoints.
\<close>

definition euclid :: "point \<Rightarrow> point \<Rightarrow> real" where
  "euclid P Q = sqrt ((fst P - fst Q)\<^sup>2 + (snd P - snd Q)\<^sup>2)"

definition spec_flag :: "int \<Rightarrow> point \<Rightarrow> point \<Rightarrow> midPnt" where
  "spec_flag f P Q = (((fst P + fst Q) / 2, (snd P + snd Q) / 2), f, euclid P Q)"

definition spec_flags :: "int \<Rightarrow> real \<Rightarrow> point list \<Rightarrow> midPnt list" where
  "spec_flags f minDist pts =
     map (\<lambda>(P, Q). spec_flag f P Q) (filter (\<lambda>(P, Q). euclid P Q < minDist) (zip pts (tl pts)))"

text \<open>The defects that \<open>dPoints\<close> holds for a polygon.\<close>

definition flags_of :: "int \<Rightarrow> (int \<times> midPnt list) list \<Rightarrow> midPnt list" where
  "flags_of f d = (case map_of d f of None \<Rightarrow> [] | Some ms \<Rightarrow> ms)"



section \<open>Properties of the rounding functions\<close>








section \<open>The angle evaluator in exact arithmetic\<close>













lemma record_angle_iErr:
  "iErr (record_angle pts f minAngle iPnt a s) = (if of_int a \<le> minAngle then iErr s + 1 else iErr s)"
  by (simp add: record_angle_def Let_def)

lemma record_angle_recorded:
  "of_int a \<le> minAngle \<Longrightarrow>
     map_of (dLines (record_angle pts f minAngle iPnt a s)) (iErr s + 1) =
       Some ([pts ! (0 + iPnt), pts ! (1 + iPnt), pts ! (2 + iPnt)], f, a) \<and>
     map_of (dTest (record_angle pts f minAngle iPnt a s)) (iErr s + 1) = Some a"
  by (simp add: record_angle_def Let_def update_conv')

lemma record_angle_skipped:
  "\<not> of_int a \<le> minAngle \<Longrightarrow> record_angle pts f minAngle iPnt a s = s"
  by (simp add: record_angle_def)



text \<open>
  Side lengths that violate the triangle inequality: the source does not clamp the quotient,
  it returns \<open>-1\<close>, where the clamped formula would give 180 degrees.
\<close>

lemma sides_not_clamped:
  "snd (angle_from_sides 0 1 1 3) = - 1 \<and>
   round_half_even (math_degrees (arccos (clamp (cos_quotient 1 1 3) (- 1) 1))) = 180"
proof -
  have q: "cos_quotient 1 1 3 = - (7 / 2)" by (simp add: cos_quotient_def)
  have p: "py_round_ndigits (- (7 / 2)) 10 = - (7 / 2)"
    by (simp add: py_round_ndigits_def round_half_even_def Let_def)
  have "snd (angle_from_sides 0 1 1 3) = - 1"
    by (simp add: angle_from_sides_def q p math_acos_def)
  moreover have "round_half_even (math_degrees (arccos (clamp (cos_quotient 1 1 3) (- 1) 1))) = 180"
    by (simp add: q clamp_def math_degrees_def round_half_even_def)
  ultimately show ?thesis by simp
qed

section \<open>Claims about the angle evaluator\<close>




text \<open>
  Claim C6: for every vertex triple with \<open>|AB| = 0\<close> or \<open>|BC| = 0\<close> the evaluator
  reports the condition and returns 0; the caller records a defect exactly when the
  returned angle is at most the threshold (the counter grows by one and the new key holds
  the three vertices, the polygon id and the angle; otherwise nothing changes), so a
  degenerate vertex is recorded whenever the threshold is at least 0.
\<close>

theorem C6_degenerate_vertex:
  assumes "2 + iPnt < length pts"
    and "side (pts ! (0 + iPnt)) (pts ! (1 + iPnt)) = 0 \<or>
         side (pts ! (1 + iPnt)) (pts ! (2 + iPnt)) = 0"
  shows "GetAngleFromPoints pts iPnt = ([(FailedAngle iPnt, 0)], 0) \<and>
         check_angle pts f minAngle iPnt st =
           record_angle pts f minAngle iPnt 0 (st\<lparr>messages := messages st @ [(FailedAngle iPnt, 0)]\<rparr>) \<and>
         (\<forall>a s. iErr (record_angle pts f minAngle iPnt a s) =
                  (if of_int a \<le> minAngle then iErr s + 1 else iErr s)) \<and>
         (\<forall>a s. of_int a \<le> minAngle \<longrightarrow>
                  map_of (dLines (record_angle pts f minAngle iPnt a s)) (iErr s + 1) =
                    Some ([pts ! (0 + iPnt), pts ! (1 + iPnt), pts ! (2 + iPnt)], f, a)) \<and>
         (\<forall>a s. \<not> of_int a \<le> minAngle \<longrightarrow> record_angle pts f minAngle iPnt a s = s) \<and>
         (0 \<le> minAngle \<longrightarrow>
            iErr (check_angle pts f minAngle iPnt st) = iErr st + 1 \<and>
            map_of (dLines (check_angle pts f minAngle iPnt st)) (iErr st + 1) =
              Some ([pts ! (0 + iPnt), pts ! (1 + iPnt), pts ! (2 + iPnt)], f, 0))"
proof -
  have g: "GetAngleFromPoints pts iPnt = ([(FailedAngle iPnt, 0)], 0)"
    using assms by (simp add: GetAngleFromPoints_def angle_from_sides_def AddMsgAndPrint_def Let_def)
  have c: "check_angle pts f minAngle iPnt st =
             record_angle pts f minAngle iPnt 0 (st\<lparr>messages := messages st @ [(FailedAngle iPnt, 0)]\<rparr>)"
    by (simp add: check_angle_def g)
  have r: "0 \<le> minAngle \<longrightarrow>
            iErr (check_angle pts f minAngle iPnt st) = iErr st + 1 \<and>
            map_of (dLines (check_angle pts f minAngle iPnt st)) (iErr st + 1) =
              Some ([pts ! (0 + iPnt), pts ! (1 + iPnt), pts ! (2 + iPnt)], f, 0)"
    unfolding c
    using record_angle_recorded [of 0 minAngle pts f iPnt "st\<lparr>messages := messages st @ [(FailedAngle iPnt, 0)]\<rparr>"]
    by (simp add: record_angle_iErr)
  show ?thesis
    using g c r record_angle_iErr record_angle_recorded record_angle_skipped by blast
qed

theorem C6_degenerate_vertex_witness:
  "2 + 0 < length [(0, 0), (0, 0), (1, 0 :: real)] \<and>
   side (0, 0) (0, 0) = 0 \<and>
   GetAngleFromPoints [(0, 0), (0, 0), (1, 0)] 0 = ([(FailedAngle 0, 0)], 0) \<and>
   map_of (dLines (check_angle [(0, 0), (0, 0), (1, 0)] 7 10 0
       \<lparr>iErr = 0, dLines = [], dTest = [], badPolys = [], messages = []\<rparr>)) 1 =
     Some ([(0, 0), (0, 0), (1, 0)], 7, 0)"
proof -
  have h1: "2 + 0 < length [(0, 0), (0, 0), (1, 0 :: real)]" by simp
  have h2: "side ([(0, 0), (0, 0), (1, 0)] ! (0 + 0)) ([(0, 0), (0, 0), (1, 0)] ! (1 + 0)) = 0 \<or>
            side ([(0, 0), (0, 0), (1, 0)] ! (1 + 0)) ([(0, 0), (0, 0), (1, 0)] ! (2 + 0)) = 0"
    by (simp add: side_def)
  note T = C6_degenerate_vertex [OF h1 h2, of 7 10
      "\<lparr>iErr = 0, dLines = [], dTest = [], badPolys = [], messages = []\<rparr>"]
  have a: "GetAngleFromPoints [(0, 0), (0, 0), (1, 0)] 0 = ([(FailedAngle 0, 0)], 0)"
    using T [THEN conjunct1] .
  have b: "map_of (dLines (check_angle [(0, 0), (0, 0), (1, 0)] 7 10 0
       \<lparr>iErr = 0, dLines = [], dTest = [], badPolys = [], messages = []\<rparr>)) 1 =
     Some ([(0, 0), (0, 0), (1, 0)], 7, 0)"
    using T [THEN conjunct2, THEN conjunct2, THEN conjunct2, THEN conjunct2, THEN conjunct2]
    by simp
  show ?thesis using h1 a b by (simp add: side_def)
qed



section \<open>The angle scan: malformed polygons\<close>

text \<open>What the scan does to \<open>badPolys\<close>, and that nothing else depends on it.\<close>


lemma record_angle_badPolys [simp]:
  "badPolys (record_angle pts f m i a st) = badPolys st"
  by (simp add: record_angle_def Let_def)

lemma check_angle_badPolys [simp]:
  "badPolys (check_angle pts f m i st) = badPolys st"
  by (simp add: check_angle_def split: prod.splits)

lemma fold_check_angle_badPolys [simp]:
  "badPolys (fold (check_angle pts f m) is st) = badPolys st"
  by (induction "is" arbitrary: st) simp_all

lemma process_row_badPolys:
  "badPolys (process_row m row st) = badPolys st @ (if bad_row row then [fid row] else [])"
  by (simp add: process_row_def bad_row_def scan_angles_def split: option.splits sum.splits)

lemma fold_process_row_badPolys:
  "badPolys (fold (process_row m) rows st) = badPolys st @ map fid (filter bad_row rows)"
  by (induction rows arbitrary: st) (simp_all add: process_row_badPolys)

lemma scan_layer_badPolys:
  "badPolys (scan_layer m rows) = map fid (filter bad_row rows)"
  by (simp add: scan_layer_def fold_process_row_badPolys)


lemma check_angle_upd_badPolys:
  "check_angle pts f m i (st\<lparr>badPolys := b\<rparr>) = (check_angle pts f m i st)\<lparr>badPolys := b\<rparr>"
  by (simp add: check_angle_def record_angle_def Let_def split: prod.splits)

lemma fold_check_angle_upd_badPolys:
  "fold (check_angle pts f m) is (st\<lparr>badPolys := b\<rparr>) = (fold (check_angle pts f m) is st)\<lparr>badPolys := b\<rparr>"
  by (induction "is" arbitrary: st) (simp_all add: check_angle_upd_badPolys)

lemma process_row_good_upd:
  "\<not> bad_row row \<Longrightarrow>
     process_row m row (st\<lparr>badPolys := b\<rparr>) = (process_row m row st)\<lparr>badPolys := b\<rparr>"
  by (simp add: process_row_def bad_row_def scan_angles_def fold_check_angle_upd_badPolys
      split: option.splits sum.splits)

lemma process_row_bad:
  "bad_row row \<Longrightarrow> process_row m row st = st\<lparr>badPolys := badPolys st @ [fid row]\<rparr>"
  by (simp add: process_row_def bad_row_def split: option.splits)

lemma fold_process_row_filter:
  "(fold (process_row m) rows st)\<lparr>badPolys := b\<rparr> =
     fold (process_row m) (filter (\<lambda>r. \<not> bad_row r) rows) (st\<lparr>badPolys := b\<rparr>)"
proof (induction rows arbitrary: st)
  case Nil
  then show ?case by simp
next
  case (Cons row rows)
  show ?case
  proof (cases "bad_row row")
    case True
    then show ?thesis using Cons [of "st\<lparr>badPolys := badPolys st @ [fid row]\<rparr>"]
      by (simp add: process_row_bad)
  next
    case False
    then show ?thesis using Cons [of "process_row m row st"]
      by (simp add: process_row_good_upd)
  qed
qed

lemma scan_layer_filter:
  "(scan_layer m rows)\<lparr>badPolys := []\<rparr> = scan_layer m (filter (\<lambda>r. \<not> bad_row r) rows)"
proof -
  have "(scan_layer m rows)\<lparr>badPolys := []\<rparr> =
        (scan_layer m (filter (\<lambda>r. \<not> bad_row r) rows))\<lparr>badPolys := []\<rparr>"
    unfolding scan_layer_def by (simp add: fold_process_row_filter [where b = "[]"])
  moreover have "badPolys (scan_layer m (filter (\<lambda>r. \<not> bad_row r) rows)) = []"
    by (simp add: scan_layer_badPolys)
  ultimately show ?thesis by (metis sliver_state.surjective sliver_state.update_convs(4) sliver_state.select_convs(4))
qed


section \<open>The angle scan: the accumulators and their materialization\<close>

text \<open>An assignment to a key that is not in the dictionary appends the entry.\<close>

lemma update_fresh: "k \<notin> fst ` set al \<Longrightarrow> AList.update k v al = al @ [(k, v)]"
  by (induction al) auto

lemma record_angle_inv:
  assumes "acc_inv st"
  shows "acc_inv (record_angle pts f m i a st)"
proof (cases "of_int a \<le> m")
  case False
  then show ?thesis using assms by (simp add: record_angle_def)
next
  case True
  have keys: "map fst (dLines st) = [1 ..< Suc (iErr st)]"
    and tst: "dTest st = map sliver_entry (dLines st)"
    and three: "list_all (\<lambda>e. length (fst (snd e)) = 3) (dLines st)"
    using assms by (simp_all add: acc_inv_def)
  have "set (map fst (dLines st)) = {1 ..< Suc (iErr st)}" unfolding keys by (rule set_upt)
  then have fresh: "Suc (iErr st) \<notin> fst ` set (dLines st)" by auto
  then have fresh': "Suc (iErr st) \<notin> fst ` set (dTest st)"
    unfolding tst by (simp add: sliver_entry_def image_image)
  have r: "record_angle pts f m i a st =
      st\<lparr>iErr := Suc (iErr st),
         dLines := dLines st @ [(Suc (iErr st), ([pts ! (0 + i), pts ! (1 + i), pts ! (2 + i)], f, a))],
         dTest := dTest st @ [(Suc (iErr st), a)]\<rparr>"
    using True by (simp add: record_angle_def Let_def update_fresh[OF fresh] update_fresh[OF fresh'])
  have "[1 ..< Suc (Suc (iErr st))] = [1 ..< Suc (iErr st)] @ [Suc (iErr st)]" by simp
  then show ?thesis
    unfolding r acc_inv_def using keys tst three
    by (simp add: sliver_entry_def angle_of_def del: upt_Suc)
qed

lemma check_angle_inv: "acc_inv st \<Longrightarrow> acc_inv (check_angle pts f m i st)"
proof -
  assume a: "acc_inv st"
  obtain msgs ang where g: "GetAngleFromPoints pts i = (msgs, ang)" by (cases "GetAngleFromPoints pts i")
  have "acc_inv (st\<lparr>messages := messages st @ msgs\<rparr>)" using a by (simp add: acc_inv_def)
  then show ?thesis unfolding check_angle_def g by (simp add: record_angle_inv)
qed

lemma fold_check_angle_inv: "acc_inv st \<Longrightarrow> acc_inv (fold (check_angle pts f m) is st)"
  by (induction "is" arbitrary: st) (simp_all add: check_angle_inv)

lemma process_row_inv: "acc_inv st \<Longrightarrow> acc_inv (process_row m row st)"
proof -
  assume a: "acc_inv st"
  have b: "\<And>x. acc_inv (st\<lparr>badPolys := x\<rparr>)" "\<And>x. acc_inv (st\<lparr>messages := x\<rparr>)"
    using a by (simp_all add: acc_inv_def)
  show ?thesis
    using a b by (simp add: process_row_def scan_angles_def fold_check_angle_inv split: option.splits sum.splits)
qed

lemma fold_process_row_inv: "acc_inv st \<Longrightarrow> acc_inv (fold (process_row m) rows st)"
  by (induction rows arbitrary: st) (simp_all add: process_row_inv)

lemma scan_layer_inv: "acc_inv (scan_layer m rows)"
  unfolding scan_layer_def by (rule fold_process_row_inv) (simp add: acc_inv_def)

text \<open>Sorting a mapped list, and the lookups of the two insert loops.\<close>

lemma insort_key_map:
  "insort_key f (g x) (map g xs) = map g (insort_key (\<lambda>y. f (g y)) x xs)"
  by (induction xs) simp_all

lemma sort_key_map: "sort_key f (map g xs) = map g (sort_key (\<lambda>y. f (g y)) xs)"
  by (induction xs) (simp_all add: insort_key_map)

lemma dAngles_of_entries:
  "dAngles_of (map sliver_entry dL) = map sliver_entry (sort_key (\<lambda>e. angle_of (snd e)) dL)"
  by (simp add: dAngles_of_def sort_key_map sliver_entry_def)

lemma line_rows_lookup:
  assumes "distinct (map fst dL)" and "set ys \<subseteq> set dL"
  shows "line_rows dL (map fst ys) = Inr (map snd ys)"
  using assms(2)
proof (induction ys)
  case Nil
  then show ?case by simp
next
  case (Cons y ys)
  then have "(fst y, snd y) \<in> set dL" by simp
  then have "map_of dL (fst y) = Some (snd y)" using assms(1) by simp
  then show ?case using Cons by simp
qed

lemma point_rows_lookup:
  assumes "distinct (map fst dL)" and "set ys \<subseteq> set dL"
    and "list_all (\<lambda>e. length (fst (snd e)) = 3) dL"
  shows "point_rows dL (map fst ys) = Inr (map (\<lambda>e. (fst (snd e) ! 1, snd (snd e))) ys)"
  using assms(2)
proof (induction ys)
  case Nil
  then show ?case by simp
next
  case (Cons y ys)
  then have m: "(fst y, snd y) \<in> set dL" by simp
  then have "map_of dL (fst y) = Some (snd y)" using assms(1) by simp
  moreover have "length (fst (snd y)) = 3" using m assms(3) by (auto simp: list_all_iff)
  then have "point_row (snd y) = Inr (fst (snd y) ! 1, snd (snd y))"
    by (cases "snd y") (simp add: point_row_def)
  ultimately show ?case using Cons by simp
qed

lemma materialize_scan:
  assumes "badPolys (scan_layer m rows) = []"
  shows "ok (ProcessLayer_SliverFinder m rows) \<and>
         lineRows (ProcessLayer_SliverFinder m rows) =
           map snd (sort_key (\<lambda>e. angle_of (snd e)) (dLines (scan_layer m rows))) \<and>
         pointRows (ProcessLayer_SliverFinder m rows) =
           map (\<lambda>s. (fst s ! 1, snd s)) (lineRows (ProcessLayer_SliverFinder m rows))"
proof -
  define st where "st = scan_layer m rows"
  define ys where "ys = sort_key (\<lambda>e. angle_of (snd e)) (dLines st)"
  have keys: "map fst (dLines st) = [1 ..< Suc (iErr st)]"
    and tst: "dTest st = map sliver_entry (dLines st)"
    and three: "list_all (\<lambda>e. length (fst (snd e)) = 3) (dLines st)"
    unfolding st_def using scan_layer_inv [of m rows] by (simp_all add: acc_inv_def)
  have dist: "distinct (map fst (dLines st))" unfolding keys by (rule distinct_upt)
  have sub: "set ys \<subseteq> set (dLines st)" by (simp add: ys_def)
  have ks: "map fst (dAngles_of (dTest st)) = map fst ys"
    unfolding tst dAngles_of_entries ys_def by (simp add: sliver_entry_def comp_def)
  have l: "line_rows (dLines st) (map fst (dAngles_of (dTest st))) = Inr (map snd ys)"
    unfolding ks using dist sub by (rule line_rows_lookup)
  have p: "point_rows (dLines st) (map fst (dAngles_of (dTest st))) =
             Inr (map (\<lambda>e. (fst (snd e) ! 1, snd (snd e))) ys)"
    unfolding ks using dist sub three by (rule point_rows_lookup)
  have e: "dLines st = [] \<Longrightarrow> ys = []" by (simp add: ys_def)
  show ?thesis
    using assms l p e
    unfolding ProcessLayer_SliverFinder_def materialize_def st_def[symmetric] ys_def[symmetric]
    by (simp add: Let_def comp_def)
qed

section \<open>The angle scan: the walk over the parts, and two angles by hand\<close>

lemma walk_parts_error:
  "\<exists>p \<in> set ps. length (collect p) < 2 \<Longrightarrow> walk_parts ps l = Inl IndexError"
  by (induction ps arbitrary: l) (auto simp: Let_def)


lemma angle_right:
  assumes "side A B = 1" "side B C = 1" "(side C A)\<^sup>2 = 2"
  shows "angle_from_sides i (side A B) (side B C) (side C A) = ([], 90)"
proof -
  have q: "cos_quotient (side A B) (side B C) (side C A) = 0"
    unfolding cos_quotient_def assms by simp
  have r: "py_round_ndigits 0 10 = 0" by (simp add: py_round_ndigits_def round_half_even_def)
  have d: "round_half_even (math_degrees (pi / 2)) = 90"
    by (simp add: math_degrees_def round_half_even_def)
  show ?thesis unfolding angle_from_sides_def q r using assms(1,2) by (simp add: math_acos_def d)
qed

lemma angle_back:
  assumes "side A B = 1" "side B C = 1" "side C A = 0"
  shows "angle_from_sides i (side A B) (side B C) (side C A) = ([], 0)"
proof -
  have q: "cos_quotient (side A B) (side B C) (side C A) = 1"
    unfolding cos_quotient_def assms by simp
  have r: "py_round_ndigits 1 10 = 1" by (simp add: py_round_ndigits_def round_half_even_def)
  have d: "round_half_even (math_degrees 0) = 0"
    by (simp add: math_degrees_def round_half_even_def)
  show ?thesis unfolding angle_from_sides_def q r using assms(1,2) by (simp add: math_acos_def d)
qed

section \<open>The segment scan: what the loops compute\<close>

lemma flags_of_add: "flags_of f (dPoints_add f m d) = flags_of f d @ [m]"
  by (simp add: flags_of_def dPoints_add_def update_conv' split: option.splits)

lemma spec_flags_Cons2:
  "spec_flags f m (P # Q # pts) =
     (if euclid P Q < m then [spec_flag f P Q] else []) @ spec_flags f m (Q # pts)"
  by (simp add: spec_flags_def)

lemma spec_flags_short [simp]: "spec_flags f m [] = []" "spec_flags f m [P] = []"
  by (simp_all add: spec_flags_def)

lemma segment_step_pair:
  assumes "pntList st = [P, Q]"
  shows "pntList (segment_step f m st) = [Q] \<and>
         flags_of f (dPoints (segment_step f m st)) =
           flags_of f (dPoints st) @ (if euclid P Q < m then [spec_flag f P Q] else []) \<and>
         iCnt (segment_step f m st) = iCnt st + (if euclid P Q < m then 1 else 0) \<and>
         iSeg (segment_step f m st) = min (iSeg st) (euclid P Q)"
  using assms
  by (simp add: segment_step_def Let_def math_hypot_def euclid_def spec_flag_def flags_of_add min_def)

lemma scan_vertices_pending:
  assumes "pntList st = [P]"
  shows "flags_of f (dPoints (scan_vertices f m part st)) =
           flags_of f (dPoints st) @ spec_flags f m (P # collect part) \<and>
         iCnt (scan_vertices f m part st) = iCnt st + length (spec_flags f m (P # collect part))"
  using assms
proof (induction part arbitrary: st P)
  case Nil
  then show ?case by simp
next
  case (Cons v part)
  show ?case
  proof (cases v)
    case None
    then show ?thesis by simp
  next
    case (Some Q)
    define st1 where "st1 = segment_step f m (st\<lparr>pntList := pntList st @ [Q]\<rparr>)"
    have p: "pntList (st\<lparr>pntList := pntList st @ [Q]\<rparr>) = [P, Q]" using Cons.prems by simp
    note s = segment_step_pair [OF p, of f m, folded st1_def]
    have "pntList st1 = [Q]" using s by simp
    note ih = Cons.IH [OF this]
    have "scan_vertices f m (v # part) st = scan_vertices f m part st1"
      using Some Cons.prems by (simp add: st1_def Let_def)
    then show ?thesis using ih s by (simp add: Some spec_flags_Cons2)
  qed
qed

lemma scan_vertices_flags:
  "flags_of f (dPoints (scan_vertices f m part (st\<lparr>pntList := []\<rparr>))) =
     flags_of f (dPoints st) @ spec_flags f m (collect part) \<and>
   iCnt (scan_vertices f m part (st\<lparr>pntList := []\<rparr>)) =
     iCnt st + length (spec_flags f m (collect part))"
proof (cases part)
  case Nil
  then show ?thesis by simp
next
  case (Cons v rest)
  show ?thesis
  proof (cases v)
    case None
    then show ?thesis using Cons by simp
  next
    case (Some Q)
    have "pntList (st\<lparr>pntList := [Q]\<rparr>) = [Q]" by simp
    note p = scan_vertices_pending [OF this, of f m rest]
    then show ?thesis using Cons Some by (simp add: Let_def)
  qed
qed

text \<open>The vertex loop leaves the other variables alone.\<close>

lemma segment_step_frame:
  "assigned (segment_step f m st) = assigned st \<and> iPartCnt (segment_step f m st) = iPartCnt st \<and>
   iPnts (segment_step f m st) = iPnts st \<and> bHasMultiPart (segment_step f m st) = bHasMultiPart st \<and>
   statsRows (segment_step f m st) = statsRows st \<and> vmessages (segment_step f m st) = vmessages st"
  by (simp add: segment_step_def Let_def)

lemma scan_vertices_frame:
  "assigned (scan_vertices f m part st) = assigned st \<and>
   iPartCnt (scan_vertices f m part st) = iPartCnt st \<and>
   iPnts (scan_vertices f m part st) = iPnts st \<and>
   bHasMultiPart (scan_vertices f m part st) = bHasMultiPart st \<and>
   statsRows (scan_vertices f m part st) = statsRows st \<and>
   vmessages (scan_vertices f m part st) = vmessages st"
proof (induction f m part st rule: scan_vertices.induct)
  case (1 f minDist st)
  then show ?case by simp
next
  case (2 f minDist rest st)
  then show ?case by simp
next
  case (3 f minDist pnt rest st)
  then show ?case by (simp add: Let_def segment_step_frame)
qed

lemma scan_parts_result:
  assumes "\<forall>p \<in> set ps. p \<noteq> []"
  shows "\<exists>st'. scan_parts f m ps st = Inr st' \<and>
           flags_of f (dPoints st') =
             flags_of f (dPoints st) @ concat (map (\<lambda>p. spec_flags f m (collect p)) ps) \<and>
           iCnt st' = iCnt st + length (concat (map (\<lambda>p. spec_flags f m (collect p)) ps)) \<and>
           assigned st' = assigned st \<and> iPartCnt st' = iPartCnt st \<and> iPnts st' = iPnts st \<and>
           bHasMultiPart st' = bHasMultiPart st \<and> statsRows st' = statsRows st \<and>
           vmessages st' = vmessages st"
  using assms
proof (induction ps arbitrary: st)
  case Nil
  then show ?case by simp
next
  case (Cons p ps)
  define st1 where "st1 = scan_vertices f m p (st\<lparr>pntList := []\<rparr>)"
  have ne: "p \<noteq> []" and rest: "\<forall>p \<in> set ps. p \<noteq> []" using Cons.prems by simp_all
  note fl = scan_vertices_flags [of f m p st, folded st1_def]
  note fr = scan_vertices_frame [of f m p "st\<lparr>pntList := []\<rparr>", folded st1_def]
  obtain st' where r: "scan_parts f m ps st1 = Inr st'"
    and a: "flags_of f (dPoints st') =
             flags_of f (dPoints st1) @ concat (map (\<lambda>p. spec_flags f m (collect p)) ps)"
    and b: "iCnt st' = iCnt st1 + length (concat (map (\<lambda>p. spec_flags f m (collect p)) ps))"
    and c: "assigned st' = assigned st1" "iPartCnt st' = iPartCnt st1" "iPnts st' = iPnts st1"
           "bHasMultiPart st' = bHasMultiPart st1" "statsRows st' = statsRows st1"
           "vmessages st' = vmessages st1"
    using Cons.IH [OF rest, of st1] by blast
  have "scan_parts f m (p # ps) st = Inr st'" using ne r by (simp add: st1_def)
  then show ?case using a b c fl fr by simp
qed

lemma scan_parts_error:
  "\<exists>p \<in> set ps. p = [] \<Longrightarrow> scan_parts f m ps st = Inl IndexError"
  by (induction ps arbitrary: st) auto






section \<open>Runs on small inputs\<close>

text \<open>
  A polygon whose ring runs out to \<open>(1, 1)\<close> and straight back: the scan finds a right
  angle, then the spike of angle 0, then the doubled closing vertex.
\<close>

lemma example_rows_scan:
  "scan_layer 100
     [\<lparr>fid = 5, feat = Some \<lparr>parts = [[Some (0, 0), Some (1, 0), Some (1, 1), Some (1, 0)]],
         pointCount = 4\<rparr>, theArea = 0, thePerimeter = 4\<rparr>] =
   \<lparr>iErr = 3,
    dLines = [(1, [(0, 0), (1, 0), (1, 1)], 5, 90), (2, [(1, 0), (1, 1), (1, 0)], 5, 0),
              (3, [(1, 1), (1, 0), (1, 0)], 5, 0)],
    dTest = [(1, 90), (2, 0), (3, 0)], badPolys = [],
    messages = [(LocatingAngles 100, 0), (FailedAngle 2, 0)]\<rparr>"
proof -
  have a0: "GetAngleFromPoints [(0, 0), (1, 0), (1, 1), (1, 0), (1, 0)] 0 = ([], 90)"
    unfolding GetAngleFromPoints_def by (simp add: Let_def) (rule angle_right; simp add: side_def)
  have a1: "GetAngleFromPoints [(0, 0), (1, 0), (1, 1), (1, 0), (1, 0)] (Suc 0) = ([], 0)"
    unfolding GetAngleFromPoints_def by (simp add: Let_def) (rule angle_back; simp add: side_def)
  have a2: "GetAngleFromPoints [(0, 0), (1, 0), (1, 1), (1, 0), (1, 0)] (Suc (Suc 0)) =
      ([(FailedAngle (Suc (Suc 0)), 0)], 0)"
    by (simp add: GetAngleFromPoints_def angle_from_sides_def side_def AddMsgAndPrint_def Let_def)
  have u: "[0 ..< 3] = [0, 1, 2]" by (simp add: upt_rec)
  show ?thesis
    by (simp add: scan_layer_def process_row_def partCount_def scan_angles_def check_angle_def
        u a0 a1 a2 record_angle_def AddMsgAndPrint_def Let_def)
qed



text \<open>A part of two vertices only: the wrap-around makes the triple \<open>a, b, b\<close>.\<close>

lemma spike_run:
  "ProcessLayer_SliverFinder 10
    [\<lparr>fid = 1, feat = Some \<lparr>parts = [[Some (0, 0), Some (1, 0)]], pointCount = 2\<rparr>,
      theArea = 0, thePerimeter = 2\<rparr>] =
   \<lparr>ok = True, lineRows = [([(0, 0), (1, 0), (1, 0)], 1, 0)], pointRows = [((1, 0), 1, 0)],
    report = [(LocatingAngles 10, 0), (FailedAngle 0, 0), (SavedSlivers 1, 0), (Spacer, 0)]\<rparr>"
  by (simp add: ProcessLayer_SliverFinder_def scan_layer_def process_row_def partCount_def
      scan_angles_def check_angle_def GetAngleFromPoints_def angle_from_sides_def side_def
      record_angle_def materialize_def dAngles_of_def point_row_def AddMsgAndPrint_def Let_def)

text \<open>The sides of the unit square as segments, and its statistics row under three units.\<close>

lemma square_flags:
  "spec_flags 1 2 [(0, 0), (1, 0), (1, 1), (0, 1), (0, 0)] =
     [((1/2, 0), 1, 1), ((1, 1/2), 1, 1), ((1/2, 1), 1, 1), ((0, 1/2), 1, 1)]"
  "spec_flags 1 (1/2) [(0, 0), (1, 0), (1, 1), (0, 1), (0, 0)] = []"
  by (simp_all add: spec_flags_def spec_flag_def euclid_def)


section \<open>Claims about the scan of the angle tool\<close>

text \<open>
  Claim C1, as the specification states it for both tools: when an input polygon has null
  geometry or no part, the run reports failure and materializes no record, statistics rows
  included. The segment tool has no such gate. It inserts the statistics row of a polygon
  as soon as the polygon is read: after a well-formed square, a polygon without parts ends
  the run with \<^verbatim>\<open>False\<close> but the row of the square is in the table; a polygon with null
  geometry does not even end the run, which returns \<^verbatim>\<open>True\<close> with two rows.
\<close>

theorem C1_counterexample:
  "\<not> vok (ProcessLayer_VertexProblems ''meters'' ''out'' (1/2)
       [\<lparr>fid = 1, feat = Some \<lparr>parts = [[Some (0, 0), Some (1, 0), Some (1, 1), Some (0, 1), Some (0, 0)]],
           pointCount = 5\<rparr>, theArea = 1, thePerimeter = 4\<rparr>,
        \<lparr>fid = 3, feat = Some \<lparr>parts = [], pointCount = 0\<rparr>, theArea = 0, thePerimeter = 0\<rparr>]) \<and>
   statsTable (ProcessLayer_VertexProblems ''meters'' ''out'' (1/2)
       [\<lparr>fid = 1, feat = Some \<lparr>parts = [[Some (0, 0), Some (1, 0), Some (1, 1), Some (0, 1), Some (0, 0)]],
           pointCount = 5\<rparr>, theArea = 1, thePerimeter = 4\<rparr>,
        \<lparr>fid = 3, feat = Some \<lparr>parts = [], pointCount = 0\<rparr>, theArea = 0, thePerimeter = 0\<rparr>]) =
     [(1, 1 / 4046.85643, 5, 4 / 5, 1, 0)] \<and>
   vok (ProcessLayer_VertexProblems ''meters'' ''out'' (1/2)
       [\<lparr>fid = 1, feat = Some \<lparr>parts = [[Some (0, 0), Some (1, 0), Some (1, 1), Some (0, 1), Some (0, 0)]],
           pointCount = 5\<rparr>, theArea = 1, thePerimeter = 4\<rparr>,
        \<lparr>fid = 2, feat = None, theArea = 0, thePerimeter = 0\<rparr>]) \<and>
   statsTable (ProcessLayer_VertexProblems ''meters'' ''out'' (1/2)
       [\<lparr>fid = 1, feat = Some \<lparr>parts = [[Some (0, 0), Some (1, 0), Some (1, 1), Some (0, 1), Some (0, 0)]],
           pointCount = 5\<rparr>, theArea = 1, thePerimeter = 4\<rparr>,
        \<lparr>fid = 2, feat = None, theArea = 0, thePerimeter = 0\<rparr>]) =
     [(1, 1 / 4046.85643, 5, 4 / 5, 1, 0), (2, 0, 5, 0, 1, 0)]"
  by (simp add: ProcessLayer_VertexProblems_def vertex_init_def process_feature_def
      read_geometry_def partCount_def write_stats_def acres_of_def segment_step_def
      math_hypot_def AddMsgAndPrint_def errorMsg_def Let_def)

text \<open>
  Claim C1, amended to the angle tool: for every run of \<^verbatim>\<open>QA_SliverFinder.ProcessLayer\<close> in
  which some polygon has null geometry or a part count of zero, the function returns
  \<^verbatim>\<open>False\<close>, no line and no point record is written, and the last message lists the id of
  every such polygon of the input; the scan has gone on over the other polygons, whose
  defects were collected exactly as in a run without the malformed ones.
\<close>

theorem C1_sliver_gate:
  assumes "\<exists>row \<in> set rows. bad_row row"
  shows "\<not> ok (ProcessLayer_SliverFinder minAngle rows) \<and>
         lineRows (ProcessLayer_SliverFinder minAngle rows) = [] \<and>
         pointRows (ProcessLayer_SliverFinder minAngle rows) = [] \<and>
         last (report (ProcessLayer_SliverFinder minAngle rows)) =
           (BadPolygonGeometry (map fid (filter bad_row rows)), 2) \<and>
         (scan_layer minAngle rows)\<lparr>badPolys := []\<rparr> =
           scan_layer minAngle (filter (\<lambda>r. \<not> bad_row r) rows)"
proof -
  from assms have "filter bad_row rows \<noteq> []" by (simp add: filter_empty_conv)
  then have "badPolys (scan_layer minAngle rows) \<noteq> []" by (simp add: scan_layer_badPolys)
  then show ?thesis
    by (simp add: ProcessLayer_SliverFinder_def materialize_def AddMsgAndPrint_def
        scan_layer_badPolys scan_layer_filter)
qed

theorem C1_sliver_gate_witness:
  "bad_row \<lparr>fid = 2, feat = None, theArea = 0, thePerimeter = 0\<rparr> \<and>
   bad_row \<lparr>fid = 3, feat = Some \<lparr>parts = [], pointCount = 0\<rparr>, theArea = 0, thePerimeter = 0\<rparr> \<and>
   \<not> ok (ProcessLayer_SliverFinder 100
        [\<lparr>fid = 2, feat = None, theArea = 0, thePerimeter = 0\<rparr>,
         \<lparr>fid = 5, feat = Some \<lparr>parts = [[Some (0, 0), Some (1, 0), Some (1, 1), Some (1, 0)]],
            pointCount = 4\<rparr>, theArea = 0, thePerimeter = 4\<rparr>,
         \<lparr>fid = 3, feat = Some \<lparr>parts = [], pointCount = 0\<rparr>, theArea = 0, thePerimeter = 0\<rparr>]) \<and>
   lineRows (ProcessLayer_SliverFinder 100
        [\<lparr>fid = 2, feat = None, theArea = 0, thePerimeter = 0\<rparr>,
         \<lparr>fid = 5, feat = Some \<lparr>parts = [[Some (0, 0), Some (1, 0), Some (1, 1), Some (1, 0)]],
            pointCount = 4\<rparr>, theArea = 0, thePerimeter = 4\<rparr>,
         \<lparr>fid = 3, feat = Some \<lparr>parts = [], pointCount = 0\<rparr>, theArea = 0, thePerimeter = 0\<rparr>]) = [] \<and>
   last (report (ProcessLayer_SliverFinder 100
        [\<lparr>fid = 2, feat = None, theArea = 0, thePerimeter = 0\<rparr>,
         \<lparr>fid = 5, feat = Some \<lparr>parts = [[Some (0, 0), Some (1, 0), Some (1, 1), Some (1, 0)]],
            pointCount = 4\<rparr>, theArea = 0, thePerimeter = 4\<rparr>,
         \<lparr>fid = 3, feat = Some \<lparr>parts = [], pointCount = 0\<rparr>, theArea = 0, thePerimeter = 0\<rparr>])) =
     (BadPolygonGeometry [2, 3], 2) \<and>
   dLines (scan_layer 100
        [\<lparr>fid = 2, feat = None, theArea = 0, thePerimeter = 0\<rparr>,
         \<lparr>fid = 5, feat = Some \<lparr>parts = [[Some (0, 0), Some (1, 0), Some (1, 1), Some (1, 0)]],
            pointCount = 4\<rparr>, theArea = 0, thePerimeter = 4\<rparr>,
         \<lparr>fid = 3, feat = Some \<lparr>parts = [], pointCount = 0\<rparr>, theArea = 0, thePerimeter = 0\<rparr>]) =
     [(1, [(0, 0), (1, 0), (1, 1)], 5, 90), (2, [(1, 0), (1, 1), (1, 0)], 5, 0),
      (3, [(1, 1), (1, 0), (1, 0)], 5, 0)]"
  (is "?B2 \<and> ?B3 \<and> \<not> ok (ProcessLayer_SliverFinder 100 ?rows) \<and> _ \<and> _ \<and> _")
proof -
  have b2: ?B2 and b3: ?B3 by (simp_all add: bad_row_def partCount_def)
  have h: "\<exists>row \<in> set ?rows. bad_row row" using b2 by simp
  have f: "filter bad_row ?rows =
      [\<lparr>fid = 2, feat = None, theArea = 0, thePerimeter = 0\<rparr>,
       \<lparr>fid = 3, feat = Some \<lparr>parts = [], pointCount = 0\<rparr>, theArea = 0, thePerimeter = 0\<rparr>]"
    by (simp add: bad_row_def partCount_def)
  have g: "filter (\<lambda>r. \<not> bad_row r) ?rows =
      [\<lparr>fid = 5, feat = Some \<lparr>parts = [[Some (0, 0), Some (1, 0), Some (1, 1), Some (1, 0)]],
           pointCount = 4\<rparr>, theArea = 0, thePerimeter = 4\<rparr>]"
    by (simp add: bad_row_def partCount_def)
  note T = C1_sliver_gate [OF h, of 100]
  have d: "dLines (scan_layer 100 ?rows) = dLines ((scan_layer 100 ?rows)\<lparr>badPolys := []\<rparr>)"
    by simp
  show ?thesis
  proof (intro conjI)
    show ?B2 by (rule b2)
    show ?B3 by (rule b3)
    show "\<not> ok (ProcessLayer_SliverFinder 100 ?rows)" using T by blast
    show "lineRows (ProcessLayer_SliverFinder 100 ?rows) = []" using T by blast
    show "last (report (ProcessLayer_SliverFinder 100 ?rows)) = (BadPolygonGeometry [2, 3], 2)"
      using T [THEN conjunct2, THEN conjunct2, THEN conjunct2, THEN conjunct1] unfolding f by simp
    show "dLines (scan_layer 100 ?rows) =
       [(1, [(0, 0), (1, 0), (1, 1)], 5, 90), (2, [(1, 0), (1, 1), (1, 0)], 5, 0),
        (3, [(1, 1), (1, 0), (1, 0)], 5, 0)]"
      unfolding d T [THEN conjunct2, THEN conjunct2, THEN conjunct2, THEN conjunct2] g
      by (simp add: example_rows_scan)
  qed
qed




text \<open>
  Claim C4: in every run that reaches the output, the line records are written in
  ascending order of the computed angle, and records of equal angle keep the order of
  their discovery, which is the order of the keys \<open>1, 2, ...\<close> of \<open>dLines\<close>; the point
  records follow the same order. Defects discovered with the angles 30, 10, 45, 10 are
  written as the second, the fourth, the first, the third (the polygon id marks the
  position of discovery in the example).
\<close>

theorem C4_sorted_by_angle_stable:
  assumes "\<not> (\<exists>row \<in> set rows. bad_row row)"
  shows "lineRows (ProcessLayer_SliverFinder minAngle rows) =
           map snd (sort_key (\<lambda>e. angle_of (snd e)) (dLines (scan_layer minAngle rows))) \<and>
         sorted (map angle_of (lineRows (ProcessLayer_SliverFinder minAngle rows))) \<and>
         (\<forall>a. filter (\<lambda>s. angle_of s = a) (lineRows (ProcessLayer_SliverFinder minAngle rows)) =
              filter (\<lambda>s. angle_of s = a) (map snd (dLines (scan_layer minAngle rows)))) \<and>
         map fst (dLines (scan_layer minAngle rows)) = [1 ..< Suc (iErr (scan_layer minAngle rows))] \<and>
         pointRows (ProcessLayer_SliverFinder minAngle rows) =
           map (\<lambda>s. (fst s ! 1, snd s)) (lineRows (ProcessLayer_SliverFinder minAngle rows)) \<and>
         lineRows (materialize minAngle
           \<lparr>iErr = 4,
            dLines = [(1, [(0, 0), (1, 0), (1, 1)], 1, 30), (2, [(0, 0), (1, 0), (1, 1)], 2, 10),
                      (3, [(0, 0), (1, 0), (1, 1)], 3, 45), (4, [(0, 0), (1, 0), (1, 1)], 4, 10)],
            dTest = [(1, 30), (2, 10), (3, 45), (4, 10)], badPolys = [], messages = []\<rparr>) =
           [([(0, 0), (1, 0), (1, 1)], 2, 10), ([(0, 0), (1, 0), (1, 1)], 4, 10),
            ([(0, 0), (1, 0), (1, 1)], 1, 30), ([(0, 0), (1, 0), (1, 1)], 3, 45)]"
proof -
  define dL where "dL = dLines (scan_layer minAngle rows)"
  define R where "R = ProcessLayer_SliverFinder minAngle rows"
  have "filter bad_row rows = []" using assms by (simp add: filter_empty_conv)
  then have b: "badPolys (scan_layer minAngle rows) = []" by (simp add: scan_layer_badPolys)
  note m = materialize_scan [OF b, folded dL_def R_def]
  have l: "lineRows R = map snd (sort_key (\<lambda>e. angle_of (snd e)) dL)" using m by simp
  have s: "sorted (map angle_of (lineRows R))"
    unfolding l using sorted_sort_key [of "\<lambda>e. angle_of (snd e)" dL] by (simp add: comp_def)
  have st: "filter (\<lambda>s. angle_of s = a) (lineRows R) = filter (\<lambda>s. angle_of s = a) (map snd dL)" for a
    unfolding l filter_map comp_def
    using sort_key_stable [of "\<lambda>e. angle_of (snd e)" a dL] by simp
  have k: "map fst dL = [1 ..< Suc (iErr (scan_layer minAngle rows))]"
    unfolding dL_def using scan_layer_inv [of minAngle rows] by (simp add: acc_inv_def)
  have e: "lineRows (materialize minAngle
           \<lparr>iErr = 4,
            dLines = [(1, [(0, 0), (1, 0), (1, 1)], 1, 30), (2, [(0, 0), (1, 0), (1, 1)], 2, 10),
                      (3, [(0, 0), (1, 0), (1, 1)], 3, 45), (4, [(0, 0), (1, 0), (1, 1)], 4, 10)],
            dTest = [(1, 30), (2, 10), (3, 45), (4, 10)], badPolys = [], messages = []\<rparr>) =
           [([(0, 0), (1, 0), (1, 1)], 2, 10), ([(0, 0), (1, 0), (1, 1)], 4, 10),
            ([(0, 0), (1, 0), (1, 1)], 1, 30), ([(0, 0), (1, 0), (1, 1)], 3, 45)]"
    by (simp add: materialize_def dAngles_of_def point_row_def Let_def)
  show ?thesis
    unfolding dL_def[symmetric] R_def[symmetric]
    using l s st k m e by blast
qed

theorem C4_sorted_by_angle_stable_witness:
  "\<not> bad_row \<lparr>fid = 5, feat = Some \<lparr>parts = [[Some (0, 0), Some (1, 0), Some (1, 1), Some (1, 0)]],
         pointCount = 4\<rparr>, theArea = 0, thePerimeter = 4\<rparr> \<and>
   map snd (dLines (scan_layer 100
      [\<lparr>fid = 5, feat = Some \<lparr>parts = [[Some (0, 0), Some (1, 0), Some (1, 1), Some (1, 0)]],
         pointCount = 4\<rparr>, theArea = 0, thePerimeter = 4\<rparr>])) =
     [([(0, 0), (1, 0), (1, 1)], 5, 90), ([(1, 0), (1, 1), (1, 0)], 5, 0),
      ([(1, 1), (1, 0), (1, 0)], 5, 0)] \<and>
   lineRows (ProcessLayer_SliverFinder 100
      [\<lparr>fid = 5, feat = Some \<lparr>parts = [[Some (0, 0), Some (1, 0), Some (1, 1), Some (1, 0)]],
         pointCount = 4\<rparr>, theArea = 0, thePerimeter = 4\<rparr>]) =
     [([(1, 0), (1, 1), (1, 0)], 5, 0), ([(1, 1), (1, 0), (1, 0)], 5, 0),
      ([(0, 0), (1, 0), (1, 1)], 5, 90)]"
  (is "?H \<and> _ \<and> lineRows (ProcessLayer_SliverFinder 100 ?rows) = _")
proof -
  have g: ?H by (simp add: bad_row_def partCount_def)
  then have h: "\<not> (\<exists>row \<in> set ?rows. bad_row row)" by simp
  note T = C4_sorted_by_angle_stable [OF h, of 100, THEN conjunct1]
  show ?thesis
  proof (intro conjI)
    show ?H by (rule g)
    show "map snd (dLines (scan_layer 100 ?rows)) =
      [([(0, 0), (1, 0), (1, 1)], 5, 90), ([(1, 0), (1, 1), (1, 0)], 5, 0),
       ([(1, 1), (1, 0), (1, 0)], 5, 0)]"
      by (simp add: example_rows_scan)
    show "lineRows (ProcessLayer_SliverFinder 100 ?rows) =
      [([(1, 0), (1, 1), (1, 0)], 5, 0), ([(1, 1), (1, 0), (1, 0)], 5, 0),
       ([(0, 0), (1, 0), (1, 1)], 5, 90)]"
      unfolding T by (simp add: example_rows_scan angle_of_def)
  qed
qed

text \<open>
  Claim C9, as the specification states it: a polygon from which fewer than three vertices
  are collected is skipped silently, without a call of the angle evaluator. With two
  vertices collected the evaluator is called once, on the triple \<open>a, b, b\<close>; it reports the
  failed angle and returns 0, and the defect is written.
\<close>

theorem C9_counterexample:
  "ProcessLayer_SliverFinder 10
    [\<lparr>fid = 1, feat = Some \<lparr>parts = [[Some (0, 0), Some (1, 0)]], pointCount = 2\<rparr>,
      theArea = 0, thePerimeter = 2\<rparr>] =
   \<lparr>ok = True, lineRows = [([(0, 0), (1, 0), (1, 0)], 1, 0)], pointRows = [((1, 0), 1, 0)],
    report = [(LocatingAngles 10, 0), (FailedAngle 0, 0), (SavedSlivers 1, 0), (Spacer, 0)]\<rparr>"
  by (rule spike_run)

text \<open>
  Claim C9, amended: a polygon with a part from which fewer than two vertices are collected
  is skipped without a call of the angle evaluator and without ending the run, but not
  silently: two error messages are reported. A polygon of one part from which exactly two
  vertices are collected is not skipped: the evaluator is called once, on the triple
  \<open>a, b, b\<close>, where it reports the degenerate vertex and returns 0.
\<close>

theorem C9_short_part:
  "(feat row = Some g \<and> 0 < partCount g \<and> (\<exists>p \<in> set (parts g). length (collect p) < 2) \<longrightarrow>
      process_row minAngle row st =
        st\<lparr>messages := messages st @ [(FidFeat (fid row), 2), (Traceback IndexError, 2)]\<rparr>) \<and>
   (feat row = Some g \<and> parts g = [part] \<and> collect part = [a, b] \<longrightarrow>
      process_row minAngle row st = check_angle [a, b, b] (fid row) minAngle 0 st \<and>
      GetAngleFromPoints [a, b, b] 0 = ([(FailedAngle 0, 0)], 0))"
proof (intro conjI impI)
  assume "feat row = Some g \<and> 0 < partCount g \<and> (\<exists>p \<in> set (parts g). length (collect p) < 2)"
  then show "process_row minAngle row st =
        st\<lparr>messages := messages st @ [(FidFeat (fid row), 2), (Traceback IndexError, 2)]\<rparr>"
    by (simp add: process_row_def walk_parts_error errorMsg_def AddMsgAndPrint_def)
next
  assume "feat row = Some g \<and> parts g = [part] \<and> collect part = [a, b]"
  then show "process_row minAngle row st = check_angle [a, b, b] (fid row) minAngle 0 st"
    by (simp add: process_row_def partCount_def scan_angles_def Let_def)
next
  show "GetAngleFromPoints [a, b, b] 0 = ([(FailedAngle 0, 0)], 0)"
    by (simp add: GetAngleFromPoints_def angle_from_sides_def side_def AddMsgAndPrint_def Let_def)
qed

theorem C9_short_part_witness:
  "process_row 10
     \<lparr>fid = 1, feat = Some \<lparr>parts = [[Some (0, 0)]], pointCount = 1\<rparr>, theArea = 0, thePerimeter = 0\<rparr>
     \<lparr>iErr = 0, dLines = [], dTest = [], badPolys = [], messages = []\<rparr> =
   \<lparr>iErr = 0, dLines = [], dTest = [], badPolys = [],
    messages = [(FidFeat 1, 2), (Traceback IndexError, 2)]\<rparr> \<and>
   process_row 10
     \<lparr>fid = 1, feat = Some \<lparr>parts = [[Some (0, 0), Some (1, 0)]], pointCount = 2\<rparr>,
      theArea = 0, thePerimeter = 2\<rparr>
     \<lparr>iErr = 0, dLines = [], dTest = [], badPolys = [], messages = []\<rparr> =
   check_angle [(0, 0), (1, 0), (1, 0)] 1 10 0
     \<lparr>iErr = 0, dLines = [], dTest = [], badPolys = [], messages = []\<rparr>"
proof (intro conjI)
  show "process_row 10
     \<lparr>fid = 1, feat = Some \<lparr>parts = [[Some (0, 0)]], pointCount = 1\<rparr>, theArea = 0, thePerimeter = 0\<rparr>
     \<lparr>iErr = 0, dLines = [], dTest = [], badPolys = [], messages = []\<rparr> =
   \<lparr>iErr = 0, dLines = [], dTest = [], badPolys = [],
    messages = [(FidFeat 1, 2), (Traceback IndexError, 2)]\<rparr>"
    using C9_short_part [of
        "\<lparr>fid = 1, feat = Some \<lparr>parts = [[Some (0, 0)]], pointCount = 1\<rparr>, theArea = 0, thePerimeter = 0\<rparr>"
        "\<lparr>parts = [[Some (0, 0)]], pointCount = 1\<rparr>" 10
        "\<lparr>iErr = 0, dLines = [], dTest = [], badPolys = [], messages = []\<rparr>", THEN conjunct1]
    by (simp add: partCount_def)
  show "process_row 10
     \<lparr>fid = 1, feat = Some \<lparr>parts = [[Some (0, 0), Some (1, 0)]], pointCount = 2\<rparr>,
      theArea = 0, thePerimeter = 2\<rparr>
     \<lparr>iErr = 0, dLines = [], dTest = [], badPolys = [], messages = []\<rparr> =
   check_angle [(0, 0), (1, 0), (1, 0)] 1 10 0
     \<lparr>iErr = 0, dLines = [], dTest = [], badPolys = [], messages = []\<rparr>"
    using C9_short_part [of
        "\<lparr>fid = 1, feat = Some \<lparr>parts = [[Some (0, 0), Some (1, 0)]], pointCount = 2\<rparr>,
          theArea = 0, thePerimeter = 2\<rparr>"
        "\<lparr>parts = [[Some (0, 0), Some (1, 0)]], pointCount = 2\<rparr>" 10
        "\<lparr>iErr = 0, dLines = [], dTest = [], badPolys = [], messages = []\<rparr>"
        "[Some (0, 0), Some (1, 0)]" "(0, 0)" "(1, 0)", THEN conjunct2]
    by simp
qed

section \<open>Claims about the normalizer\<close>

text \<open>What the two main programs do on a datum mismatch, for every input.\<close>

lemma main_SliverFinder_always_processes:
  "bProcessed (main_SliverFinder inputSR outputSR minAngle rows) =
     Some (ProcessLayer_SliverFinder minAngle rows)"
  by (simp add: main_SliverFinder_def Let_def split: prod.splits)

lemma main_VertexProblems_halts_on_mismatch:
  "datumName inputSR \<noteq> snd (choose_output inputSR outputSR) \<Longrightarrow>
     main_VertexProblems inputSR outputSR outLayer minDist rows =
       \<lparr>mainLog = [(DatumMismatch, 2), (Blank, 0)], unitsChosen = [], bProcessed = None\<rparr>"
  by (cases "choose_output inputSR outputSR")
    (simp add: main_VertexProblems_def Let_def errorMsg_def AddMsgAndPrint_def)

text \<open>
  Claim C5: a run whose output reference has another datum than the input must report the
  mismatch and halt before any polygon is scanned. The segment tool does (second
  equation); the angle tool reports the mismatch and goes on: on the input below it scans
  the polygon and writes a line and a point record.
\<close>

theorem C5_sliver_main_continues:
  "main_SliverFinder
     \<lparr>srName = ''NAD_1983_UTM_Zone_15N'', datumName = ''D_North_American_1983'',
      srType = ''Projected'', linearUnitName = ''Meter''\<rparr>
     \<lparr>srName = ''WGS_1984_UTM_Zone_15N'', datumName = ''D_WGS_1984'',
      srType = ''Projected'', linearUnitName = ''Meter''\<rparr>
     10
     [\<lparr>fid = 1, feat = Some \<lparr>parts = [[Some (0, 0), Some (1, 0)]], pointCount = 2\<rparr>,
       theArea = 0, thePerimeter = 2\<rparr>] =
   \<lparr>mainLog = [(DatumMismatch, 2), (FinalOutputCS ''WGS_1984_UTM_Zone_15N'', 0)],
    unitsChosen = ''meters'',
    bProcessed = Some
      \<lparr>ok = True, lineRows = [([(0, 0), (1, 0), (1, 0)], 1, 0)], pointRows = [((1, 0), 1, 0)],
       report = [(LocatingAngles 10, 0), (FailedAngle 0, 0), (SavedSlivers 1, 0), (Spacer, 0)]\<rparr>\<rparr> \<and>
   main_VertexProblems
     \<lparr>srName = ''NAD_1983_UTM_Zone_15N'', datumName = ''D_North_American_1983'',
      srType = ''Projected'', linearUnitName = ''Meter''\<rparr>
     \<lparr>srName = ''WGS_1984_UTM_Zone_15N'', datumName = ''D_WGS_1984'',
      srType = ''Projected'', linearUnitName = ''Meter''\<rparr>
     ''out'' (1/2)
     [\<lparr>fid = 1, feat = Some \<lparr>parts = [[Some (0, 0), Some (1, 0)]], pointCount = 2\<rparr>,
       theArea = 0, thePerimeter = 2\<rparr>] =
   \<lparr>mainLog = [(DatumMismatch, 2), (Blank, 0)], unitsChosen = [], bProcessed = None\<rparr>"
proof -
  have n: "normalize_units ''Meter'' = ''meters''" by code_simp
  have u: "py_upper ''Projected'' = ''PROJECTED''" by code_simp
  show ?thesis
    by (simp add: main_SliverFinder_def main_VertexProblems_def choose_output_def
        check_projected_def n u spike_run AddMsgAndPrint_def errorMsg_def Let_def)
qed

section \<open>Claims about the segment tool\<close>

text \<open>
  Claim C7: the segment defects recorded for a polygon are, part by part and in order,
  the pairs of consecutive vertices (up to the first null vertex of the part) whose
  Euclidean distance is strictly below the threshold, each recorded at the arithmetic mean
  of its endpoints with the polygon id and the distance; the counter of defects grows by
  their number.
\<close>

theorem C7_segment_defects:
  "flags_of f (dPoints (scan_vertices f minDist part (st\<lparr>pntList := []\<rparr>))) =
     flags_of f (dPoints st) @ spec_flags f minDist (collect part) \<and>
   iCnt (scan_vertices f minDist part (st\<lparr>pntList := []\<rparr>)) =
     iCnt st + length (spec_flags f minDist (collect part)) \<and>
   (feat row = Some g \<and> (\<forall>p \<in> set (parts g). p \<noteq> []) \<longrightarrow>
      (\<exists>st'. read_geometry minDist row st = Inr st' \<and>
         flags_of (fid row) (dPoints st') =
           flags_of (fid row) (dPoints st) @
             concat (map (\<lambda>p. spec_flags (fid row) minDist (collect p)) (parts g)) \<and>
         iCnt st' =
           iCnt st + length (concat (map (\<lambda>p. spec_flags (fid row) minDist (collect p)) (parts g)))))"
proof (intro conjI impI)
  show "flags_of f (dPoints (scan_vertices f minDist part (st\<lparr>pntList := []\<rparr>))) =
     flags_of f (dPoints st) @ spec_flags f minDist (collect part)"
    using scan_vertices_flags by blast
  show "iCnt (scan_vertices f minDist part (st\<lparr>pntList := []\<rparr>)) =
     iCnt st + length (spec_flags f minDist (collect part))"
    using scan_vertices_flags by blast
next
  assume a: "feat row = Some g \<and> (\<forall>p \<in> set (parts g). p \<noteq> [])"
  define n where "n = partCount g"
  define s0 where "s0 = (if n = 1 then st\<lparr>iPartCnt := 0\<rparr>
                     else if n = 0
                     then st\<lparr>iPartCnt := n,
                             vmessages := AddMsgAndPrint (BadGeometry (fid row)) 2 (vmessages st)\<rparr>
                     else st\<lparr>iPartCnt := n, bHasMultiPart := True\<rparr>)
                   \<lparr>assigned := True, iPnts := pointCount g, iSeg := 1000000\<rparr>"
  have d: "dPoints s0 = dPoints st" "iCnt s0 = iCnt st" by (simp_all add: s0_def)
  have r: "read_geometry minDist row st = scan_parts (fid row) minDist (parts g) s0"
    using a by (simp add: read_geometry_def Let_def s0_def n_def)
  from a have "\<forall>p \<in> set (parts g). p \<noteq> []" by simp
  from scan_parts_result [OF this, of "fid row" minDist s0]
  show "\<exists>st'. read_geometry minDist row st = Inr st' \<and>
         flags_of (fid row) (dPoints st') =
           flags_of (fid row) (dPoints st) @
             concat (map (\<lambda>p. spec_flags (fid row) minDist (collect p)) (parts g)) \<and>
         iCnt st' =
           iCnt st + length (concat (map (\<lambda>p. spec_flags (fid row) minDist (collect p)) (parts g)))"
    unfolding r d by blast
qed

theorem C7_segment_defects_witness:
  "(case read_geometry 2
        \<lparr>fid = 1, feat = Some \<lparr>parts = [[Some (0, 0), Some (1, 0), Some (1, 1), Some (0, 1), Some (0, 0)]],
           pointCount = 5\<rparr>, theArea = 1, thePerimeter = 4\<rparr> vertex_init of
      Inl e \<Rightarrow> False
    | Inr st' \<Rightarrow> flags_of 1 (dPoints st') =
        [((1/2, 0), 1, 1), ((1, 1/2), 1, 1), ((1/2, 1), 1, 1), ((0, 1/2), 1, 1)]) \<and>
   (case read_geometry (1/2)
        \<lparr>fid = 1, feat = Some \<lparr>parts = [[Some (0, 0), Some (1, 0), Some (1, 1), Some (0, 1), Some (0, 0)]],
           pointCount = 5\<rparr>, theArea = 1, thePerimeter = 4\<rparr> vertex_init of
      Inl e \<Rightarrow> False
    | Inr st' \<Rightarrow> flags_of 1 (dPoints st') = [])"
  (is "?A \<and> ?B")
proof -
  have d: "flags_of 1 (dPoints vertex_init) = []" by (simp add: flags_of_def vertex_init_def)
  note T = C7_segment_defects [of 1 _ "[]" vertex_init
      "\<lparr>fid = 1, feat = Some \<lparr>parts = [[Some (0, 0), Some (1, 0), Some (1, 1), Some (0, 1), Some (0, 0)]],
           pointCount = 5\<rparr>, theArea = 1, thePerimeter = 4\<rparr>"
      "\<lparr>parts = [[Some (0, 0), Some (1, 0), Some (1, 1), Some (0, 1), Some (0, 0)]], pointCount = 5\<rparr>",
      THEN conjunct2, THEN conjunct2, rule_format]
  have A: ?A using T [of 2] by (auto simp add: square_flags d)
  have B: ?B using T [of "1/2"] by (auto simp add: square_flags d)
  show ?thesis using A B by blast
qed





end
